theory Spec2Isabelle
  imports Main
begin

section \<open>Strings\<close>

text \<open>
  A Python \<open>str\<close> is modelled as a \<open>string\<close>, one \<open>char\<close> per code point; the model
  covers text whose code points are below 256.  The character classes below are the ones
  Python's \<open>re\<close> and \<open>str\<close> use on that range.
\<close>

definition nl :: char where
  "nl = CHR 0x0A"

definition is_word :: "char \<Rightarrow> bool" where
  \<comment> \<open>the regex class \<open>\w\<close> on \<open>str\<close> patterns: alphanumeric code points and underscore\<close>
  "is_word c =
     (let n = (of_char c :: nat) in
        (48 \<le> n \<and> n \<le> 57) \<or> (65 \<le> n \<and> n \<le> 90) \<or> n = 95 \<or> (97 \<le> n \<and> n \<le> 122)
        \<or> n = 170 \<or> n = 178 \<or> n = 179 \<or> n = 181 \<or> n = 185 \<or> n = 186
        \<or> (188 \<le> n \<and> n \<le> 190) \<or> (192 \<le> n \<and> n \<le> 214)
        \<or> (216 \<le> n \<and> n \<le> 246) \<or> (248 \<le> n \<and> n \<le> 255))"

definition is_space :: "char \<Rightarrow> bool" where
  \<comment> \<open>the characters \<open>str.strip\<close> and \<open>str.rstrip\<close> remove when called without argument\<close>
  "is_space c =
     (let n = (of_char c :: nat) in
        (9 \<le> n \<and> n \<le> 13) \<or> (28 \<le> n \<and> n \<le> 32) \<or> n = 133 \<or> n = 160)"

definition startswith :: "string \<Rightarrow> string \<Rightarrow> bool" where
  "startswith s p = (take (length p) s = p)"

definition rstrip :: "string \<Rightarrow> string" where
  "rstrip s = rev (dropWhile is_space (rev s))"

definition strip :: "string \<Rightarrow> string" where
  "strip s = dropWhile is_space (rstrip s)"

definition lower_char :: "char \<Rightarrow> char" where
  "lower_char c =
     (let n = (of_char c :: nat) in
        if (65 \<le> n \<and> n \<le> 90) \<or> (192 \<le> n \<and> n \<le> 222 \<and> n \<noteq> 215) then char_of (n + 32) else c)"

fun join :: "string \<Rightarrow> string list \<Rightarrow> string" where
  "join sep [] = []"
| "join sep [x] = x"
| "join sep (x # y # ys) = x @ sep @ join sep (y # ys)"

fun split_on :: "char \<Rightarrow> string \<Rightarrow> string list" where
  \<comment> \<open>\<open>s.split(sep)\<close> for a separator of one character\<close>
  "split_on sep [] = [[]]"
| "split_on sep (c # cs) =
     (if c = sep then [] # split_on sep cs
      else (case split_on sep cs of [] \<Rightarrow> [[c]] | l # ls \<Rightarrow> (c # l) # ls))"

definition digit_char :: "nat \<Rightarrow> char" where
  "digit_char d = char_of (48 + d)"

fun str_nat :: "nat \<Rightarrow> string" where
  \<comment> \<open>the decimal text of a number, as an f-string formats it\<close>
  "str_nat n = (if n < 10 then [digit_char n] else str_nat (n div 10) @ [digit_char (n mod 10)])"

declare str_nat.simps [simp del]

subsection \<open>Substitution of every match\<close>

text \<open>
  \<open>re.sub\<close> and \<open>str.replace\<close> scan the text from the left and replace every
  non-overlapping match.  A pattern is given by its matcher: applied to the text that starts
  at the current position, it returns the replacement and the length of the match there, or
  \<open>None\<close>.  No pattern of the program matches the empty string.  The counter of
  \<open>sub_from\<close> is the number of characters of the last match still to be skipped.
\<close>

type_synonym matcher = "string \<Rightarrow> (string \<times> nat) option"

fun sub_from :: "matcher \<Rightarrow> nat \<Rightarrow> string \<Rightarrow> string" where
  "sub_from m k [] = []"
| "sub_from m (Suc k) (c # cs) = sub_from m k cs"
| "sub_from m 0 (c # cs) =
     (case m (c # cs) of
        Some (rep, n) \<Rightarrow> rep @ sub_from m (n - 1) cs
      | None \<Rightarrow> c # sub_from m 0 cs)"

definition re_sub :: "matcher \<Rightarrow> string \<Rightarrow> string" where
  "re_sub m s = sub_from m 0 s"

section \<open>Markup post-processing\<close>

definition container_match :: matcher where
  \<comment> \<open>\<open>\.\. container:: (\w+)\<close>, replaced by \<open>.. \1::\<close>\<close>
  "container_match s =
     (if startswith s ''.. container:: '' then
        (let tag = takeWhile is_word (drop 15 s) in
           if tag = [] then None else Some (''.. '' @ tag @ ''::'', 15 + length tag))
      else None)"

definition update_sphinx_tags :: "string \<Rightarrow> string" where
  "update_sphinx_tags rst = re_sub container_match rst"

definition property_match :: matcher where
  \<comment> \<open>\<open>(\w+) (:property=)\<close>, replaced by \<open>\1\n   \2\<close>\<close>
  "property_match s =
     (let w = takeWhile is_word s in
        if w \<noteq> [] \<and> startswith (dropWhile is_word s) '' :property='' then
          Some (w @ [nl] @ ''   :property='', length w + 11)
        else None)"

definition add_property_newline :: "string \<Rightarrow> string" where
  "add_property_newline rst = re_sub property_match rst"

definition alt_match :: matcher where
  \<comment> \<open>\<open> {3}:alt: (.+)\n\n {3}(.+)\<close>, replaced by \<open>   :alt: \1\<close>\<close>
  "alt_match s =
     (if startswith s ''   :alt: '' then
        (let r = drop 9 s; g1 = takeWhile (\<lambda>c. c \<noteq> nl) r; r1 = dropWhile (\<lambda>c. c \<noteq> nl) r in
           if g1 \<noteq> [] \<and> startswith r1 ([nl, nl] @ ''   '') then
             (let g2 = takeWhile (\<lambda>c. c \<noteq> nl) (drop 5 r1) in
                if g2 = [] then None
                else Some (''   :alt: '' @ g1, 9 + length g1 + 5 + length g2))
           else None)
      else None)"

definition fix_image_alt_tag_as_text :: "string \<Rightarrow> string" where
  "fix_image_alt_tag_as_text rst = re_sub alt_match rst"

definition postprocess :: "string \<Rightarrow> string" where
  \<comment> \<open>the composition applied to every converted markdown cell\<close>
  "postprocess rst = fix_image_alt_tag_as_text (add_property_newline (update_sphinx_tags rst))"

section \<open>Errors and the file system\<close>

datatype error =
    AssertionError | KeyError | TypeError | Base64Error
  | FileNotFoundError | IsADirectoryError | NotADirectoryError | FileExistsError | SameFileError

text \<open>
  The file system maps a path, as the program writes it, to what is stored there.  Paths are
  strings in the normal form of \<open>pathlib\<close> (no trailing slash, no empty or \<open>.\<close>
  component); the model compares them as written and does not resolve \<open>..\<close>.
  The root and the current directory always exist.  Every operation returns the file system it
  leaves behind, also when it fails.
\<close>

datatype node = File string | Dir

type_synonym fs = "string \<Rightarrow> node option"

type_synonym 'a io = "fs \<Rightarrow> (error + 'a) \<times> fs"

definition is_absolute :: "string \<Rightarrow> bool" where
  "is_absolute p = startswith p ''/''"

definition path_join :: "string \<Rightarrow> string \<Rightarrow> string" where
  \<comment> \<open>\<open>Path(a) / b\<close>\<close>
  "path_join a b =
     (if is_absolute b then b
      else if a = [] \<or> a = ''.'' then b
      else if a = ''/'' then a @ b
      else a @ ''/'' @ b)"

definition basename :: "string \<Rightarrow> string" where
  \<comment> \<open>\<open>Path(p).name\<close>\<close>
  "basename p = rev (takeWhile (\<lambda>c. c \<noteq> CHR ''/'') (rev p))"

definition parent :: "string \<Rightarrow> string" where
  \<comment> \<open>\<open>Path(p).parent\<close>\<close>
  "parent p =
     (let d = rev (dropWhile (\<lambda>c. c \<noteq> CHR ''/'') (rev p)) in
        if d = [] then ''.'' else if d = ''/'' then ''/'' else butlast d)"

fun ancestors :: "nat \<Rightarrow> string \<Rightarrow> string list" where
  \<comment> \<open>\<open>Path(p).parents\<close>, nearest first; the number bounds the depth\<close>
  "ancestors 0 p = []"
| "ancestors (Suc n) p = (let q = parent p in if q = p then [] else q # ancestors n q)"

definition suffixes :: "string \<Rightarrow> string list" where
  \<comment> \<open>\<open>Path(p).suffixes\<close>\<close>
  "suffixes p =
     (let name = basename p in
        if name \<noteq> [] \<and> last name = CHR ''.'' then []
        else map (\<lambda>suffix. ''.'' @ suffix)
               (tl (split_on (CHR ''.'') (dropWhile (\<lambda>c. c = CHR ''.'') name))))"

definition is_dir :: "fs \<Rightarrow> string \<Rightarrow> bool" where
  "is_dir fs p = (p = ''/'' \<or> p = ''.'' \<or> fs p = Some Dir)"

definition is_file :: "fs \<Rightarrow> string \<Rightarrow> bool" where
  "is_file fs p = (case fs p of Some (File d) \<Rightarrow> p \<noteq> ''/'' \<and> p \<noteq> ''.'' | _ \<Rightarrow> False)"

definition path_exists :: "fs \<Rightarrow> string \<Rightarrow> bool" where
  \<comment> \<open>\<open>Path(p).exists()\<close>\<close>
  "path_exists fs p = (is_dir fs p \<or> is_file fs p)"

definition mkdir_parents :: "string \<Rightarrow> unit io" where
  \<comment> \<open>\<open>Path(p).mkdir(parents=True)\<close>: the directory and every missing ancestor\<close>
  "mkdir_parents p fs =
     (if path_exists fs p then (Inl FileExistsError, fs)
      else if list_ex (is_file fs) (ancestors (length p) p) then (Inl NotADirectoryError, fs)
      else (Inr (),
            (\<lambda>q. if (q = p \<or> q \<in> set (ancestors (length p) p)) \<and> \<not> path_exists fs q
                 then Some Dir else fs q)))"

definition open_write :: "string \<Rightarrow> string \<Rightarrow> unit io" where
  \<comment> \<open>\<open>open(p, "w")\<close> or \<open>open(p, "wb")\<close>, one \<open>write\<close>, close\<close>
  "open_write p content fs =
     (if is_dir fs p then (Inl IsADirectoryError, fs)
      else if is_file fs (parent p) then (Inl NotADirectoryError, fs)
      else if \<not> is_dir fs (parent p) then (Inl FileNotFoundError, fs)
      else (Inr (), fs(p \<mapsto> File content)))"

definition shutil_copy :: "string \<Rightarrow> string \<Rightarrow> unit io" where
  \<comment> \<open>\<open>shutil.copy(src, dst)\<close>\<close>
  "shutil_copy src dst fs =
     (let target = (if is_dir fs dst then path_join dst (basename src) else dst) in
        if is_dir fs src then (Inl IsADirectoryError, fs)
        else (case fs src of
                Some (File content) \<Rightarrow>
                  if target = src then (Inl SameFileError, fs) else open_write target content fs
              | _ \<Rightarrow> (Inl FileNotFoundError, fs)))"

text \<open>
  What the program takes from outside: the markdown converter (\<open>pypandoc.convert_text\<close>
  with the fixed options of the call), the base64 decoder (\<open>None\<close> when it rejects the
  payload) and the directory of the script.
\<close>

record env =
  convert_text :: "string \<Rightarrow> string"
  b64decode :: "string \<Rightarrow> string option"
  CWD :: string

section \<open>The notebook\<close>

text \<open>
  The JSON document, with the keys the program reads.  A key the program reads with
  \<open>get\<close>, or only on some paths, is optional; \<open>cell_type\<close> and \<open>output_type\<close> are
  read with a subscript on every path.  A text (\<open>source\<close>, \<open>text/plain\<close>, \<open>text\<close>)
  is a list of lines.
\<close>

record out_data =
  text_plain :: "string list option"
  image_png :: "string option"

record nb_output =
  output_type :: string
  output_data :: "out_data option"
  output_text :: "string list option"

record cell =
  cell_type :: string
  cell_source :: "string list option"
  cell_id :: "string option"
  cell_outputs :: "nb_output list option"

record notebook =
  cells :: "cell list option"

section \<open>Rendering the outputs of a code cell\<close>

definition hashes :: string where
  \<comment> \<open>\<open>'#' * 70\<close>\<close>
  "hashes = replicate 70 (CHR ''#'')"

definition output_header :: string where
  "output_header =
     join [nl] (map (\<lambda>line. ''# '' @ line)
       [''.. rst-class :: sphx-glr-script-out'', [], ''Out:'', [], ''.. code-block: none'', []])"

definition generate_code_output_block :: "string list option \<Rightarrow> bool \<Rightarrow> string" where
  "generate_code_output_block output_source only_header =
     (if only_header then output_header
      else
        (let output_text =
           (case output_source of
              Some (l # ls) \<Rightarrow> [nl] @ join [nl] (map (\<lambda>line. ''#    '' @ rstrip line) (l # ls))
            | _ \<Rightarrow> [])
         in [nl, nl] @ hashes @ [nl] @ output_header @ output_text))"

definition generate_sphinx_role_comment :: "string \<Rightarrow> string \<Rightarrow> (string \<times> string) list \<Rightarrow> string" where
  "generate_sphinx_role_comment role_name target attrs =
     join [nl]
       ((''# .. '' @ role_name @ '':: '' @ target) #
        map (\<lambda>(attr_name, attr_value). ''#    :'' @ attr_name @ '': '' @ attr_value) attrs)"

text \<open>
  One round of the loop over the outputs of a cell: \<open>j\<close> is the index of the output, the
  state is the document so far and the number of images written for the cell.
\<close>

definition image_file_path :: "string \<Rightarrow> string \<Rightarrow> string \<Rightarrow> string \<Rightarrow> nat \<Rightarrow> string" where
  \<comment> \<open>\<open>image_file_dir / f"{notebook_name}_{cell_id}_{num_images}.png"\<close>\<close>
  "image_file_path notebook_name sphinx_gallery_dir_name notebook_asset_folder_name cid num_images =
     (let image_file_dir = path_join sphinx_gallery_dir_name notebook_asset_folder_name
      in path_join image_file_dir
           (notebook_name @ ''_'' @ cid @ ''_'' @ str_nat num_images @ ''.png''))"

definition image_save_loc :: "env \<Rightarrow> string \<Rightarrow> string" where
  \<comment> \<open>\<open>image_file_path if image_file_path.is_absolute() else (CWD / image_file_path)\<close>\<close>
  "image_save_loc E path = (if is_absolute path then path else path_join (CWD E) path)"

definition render_image ::
  "env \<Rightarrow> string \<Rightarrow> string \<Rightarrow> string \<Rightarrow> string \<Rightarrow> nat \<Rightarrow> string \<Rightarrow> string \<times> nat \<Rightarrow> (string \<times> nat) io" where
  \<comment> \<open>the branch \<open>if "image/png" in output_data\<close>\<close>
  "render_image E notebook_name sphinx_gallery_dir_name notebook_asset_folder_name cid j payload st fs =
     (let ret0 = (if j = 0 then fst st @ [nl, nl] @ hashes else fst st);
          num_images = snd st + 1;
          path = image_file_path notebook_name sphinx_gallery_dir_name
                   notebook_asset_folder_name cid num_images;
          role_text =
            generate_sphinx_role_comment ''figure'' path
              [(''align'', ''center''), (''width'', ''80%'')]
      in case b64decode E payload of
           None \<Rightarrow> (Inl Base64Error, fs)
         | Some image_data \<Rightarrow>
             (let save_loc = image_save_loc E path;
                  made =
                    (if \<not> path_exists fs save_loc then mkdir_parents save_loc fs
                     else (Inr (), fs))
              in case made of
                   (Inl e, fs1) \<Rightarrow> (Inl e, fs1)
                 | (Inr u, fs1) \<Rightarrow>
                     (case open_write save_loc image_data fs1 of
                        (Inl e, fs2) \<Rightarrow> (Inl e, fs2)
                      | (Inr v, fs2) \<Rightarrow>
                          (Inr (ret0 @ [nl] @ ''#'' @ [nl] @ role_text, num_images), fs2))))"

definition render_output ::
  "env \<Rightarrow> string \<Rightarrow> string \<Rightarrow> string \<Rightarrow> cell \<Rightarrow> nat \<Rightarrow> nb_output \<Rightarrow> string \<times> nat \<Rightarrow> (string \<times> nat) io" where
  "render_output E notebook_name sphinx_gallery_dir_name notebook_asset_folder_name c j out st fs =
     (if output_type out = ''execute_result'' then
        (case output_data out of
           None \<Rightarrow> (Inl TypeError, fs)
         | Some d \<Rightarrow>
             (case text_plain d of
                Some ls \<Rightarrow> (Inr (fst st @ generate_code_output_block (Some ls) (j \<noteq> 0), snd st), fs)
              | None \<Rightarrow> (Inr st, fs)))
      else if output_type out = ''display_data'' then
        (case cell_id c of
           None \<Rightarrow> (Inl KeyError, fs)
         | Some cid \<Rightarrow>
             (case output_data out of
                None \<Rightarrow> (Inl TypeError, fs)
              | Some d \<Rightarrow>
                  (let st1 =
                     (case (text_plain d, image_png d) of
                        (Some ls, None) \<Rightarrow>
                          ((if j = 0 then fst st @ generate_code_output_block None False else fst st)
                             @ [nl] @ join [nl] (map (\<lambda>line. ''#    '' @ strip line) ls),
                           snd st)
                      | _ \<Rightarrow> st)
                   in case image_png d of
                        Some payload \<Rightarrow>
                          render_image E notebook_name sphinx_gallery_dir_name
                            notebook_asset_folder_name cid j payload st1 fs
                      | None \<Rightarrow> (Inr st1, fs))))
      else if output_type out = ''stream'' then
        (case output_text out of
           Some (l # ls) \<Rightarrow> (Inr (fst st @ generate_code_output_block (Some (l # ls)) False, snd st), fs)
         | _ \<Rightarrow> (Inr st, fs))
      else (Inr st, fs))"

fun render_outputs ::
  "env \<Rightarrow> string \<Rightarrow> string \<Rightarrow> string \<Rightarrow> cell \<Rightarrow> nat \<Rightarrow> nb_output list \<Rightarrow> string \<times> nat \<Rightarrow> (string \<times> nat) io" where
  \<comment> \<open>\<open>for j, output in enumerate(code_outputs)\<close>, from index \<open>j\<close> on\<close>
  "render_outputs E nn gd af c j [] st fs = (Inr st, fs)"
| "render_outputs E nn gd af c j (out # outs) st fs =
     (case render_output E nn gd af c j out st fs of
        (Inl e, fs1) \<Rightarrow> (Inl e, fs1)
      | (Inr st1, fs1) \<Rightarrow> render_outputs E nn gd af c (Suc j) outs st1 fs1)"

section \<open>The cells\<close>

definition quotes :: string where
  \<comment> \<open>three double quotes\<close>
  "quotes = replicate 3 (CHR 0x22)"

definition source_text :: "cell \<Rightarrow> string" where
  \<comment> \<open>\<open>"".join(cell.get("source", []))\<close>\<close>
  "source_text c = concat (case cell_source c of None \<Rightarrow> [] | Some ls \<Rightarrow> ls)"

definition convert_cell ::
  "env \<Rightarrow> string \<Rightarrow> bool \<Rightarrow> string \<Rightarrow> string \<Rightarrow> nat \<Rightarrow> cell \<Rightarrow> string \<Rightarrow> string io" where
  \<comment> \<open>the body of \<open>for i, cell in enumerate(notebook["cells"])\<close>\<close>
  "convert_cell E notebook_name is_executable sphinx_gallery_dir_name notebook_asset_folder_name
       i c ret_python_str fs =
     (let cell_source = source_text c in
        if cell_type c = ''markdown'' \<and> cell_source \<noteq> [] then
          (let cell_rst_source = convert_text E cell_source;
               cell_rst_source_formatted = postprocess cell_rst_source
           in if i = 0 then (Inr (''r'' @ quotes @ cell_rst_source_formatted @ quotes), fs)
              else
                (let commented_source =
                       join [nl] (map (\<lambda>line. ''# '' @ line) (split_on nl cell_rst_source_formatted))
                 in (Inr (ret_python_str @ [nl, nl] @ hashes @ [nl] @ commented_source), fs)))
        else if cell_type c = ''code'' \<and> cell_source \<noteq> [] then
          (let ret1 = ret_python_str @ [nl, nl] @ cell_source in
             if \<not> is_executable then
               (let code_outputs = (case cell_outputs c of None \<Rightarrow> [] | Some outs \<Rightarrow> outs) in
                  case render_outputs E notebook_name sphinx_gallery_dir_name
                         notebook_asset_folder_name c 0 code_outputs (ret1, 0) fs of
                    (Inl e, fs1) \<Rightarrow> (Inl e, fs1)
                  | (Inr st, fs1) \<Rightarrow> (Inr (fst st), fs1))
             else (Inr ret1, fs))
        else (Inr ret_python_str, fs))"

fun convert_cells ::
  "env \<Rightarrow> string \<Rightarrow> bool \<Rightarrow> string \<Rightarrow> string \<Rightarrow> nat \<Rightarrow> cell list \<Rightarrow> string \<Rightarrow> string io" where
  \<comment> \<open>the loop over the cells, from index \<open>i\<close> on\<close>
  "convert_cells E nn ex gd af i [] ret fs = (Inr ret, fs)"
| "convert_cells E nn ex gd af i (c # cs) ret fs =
     (case convert_cell E nn ex gd af i c ret fs of
        (Inl e, fs1) \<Rightarrow> (Inl e, fs1)
      | (Inr ret1, fs1) \<Rightarrow> convert_cells E nn ex gd af (Suc i) cs ret1 fs1)"

definition percent_match :: matcher where
  \<comment> \<open>\<open>replace("\n%", "\n# %")\<close>\<close>
  "percent_match s = (if startswith s [nl, CHR ''%''] then Some ([nl] @ ''# %'', 2) else None)"

definition convert_notebook_to_python ::
  "env \<Rightarrow> notebook \<Rightarrow> string \<Rightarrow> bool \<Rightarrow> string \<Rightarrow> string \<Rightarrow> string io" where
  "convert_notebook_to_python E nb notebook_name is_executable sphinx_gallery_dir_name
       notebook_asset_folder_name fs =
     (case cells nb of
        None \<Rightarrow> (Inl AssertionError, fs)
      | Some [] \<Rightarrow> (Inl AssertionError, fs)
      | Some (c0 # cs) \<Rightarrow>
          if cell_type c0 \<noteq> ''markdown'' then (Inl AssertionError, fs)
          else
            (case convert_cells E notebook_name is_executable sphinx_gallery_dir_name
                    notebook_asset_folder_name 0 (c0 # cs) [] fs of
               (Inl e, fs1) \<Rightarrow> (Inl e, fs1)
             | (Inr ret_python_str, fs1) \<Rightarrow> (Inr (re_sub percent_match ret_python_str), fs1)))"

section \<open>The author block\<close>

record author_info =
  author_name :: "string option"
  profile_picture :: "string option"
  bio :: "string option"
  formatted_name :: "string option"

definition stem_sep :: "char \<Rightarrow> bool" where
  \<comment> \<open>the class of space, hyphen, apostrophe and the code points from 0x80\<close>
  "stem_sep c = (c = CHR '' '' \<or> c = CHR ''-'' \<or> c = CHR 0x27 \<or> 128 \<le> (of_char c :: nat))"

definition stem_match :: matcher where
  \<comment> \<open>a run of such characters, replaced by an underscore\<close>
  "stem_match s =
     (let run = takeWhile stem_sep s in if run = [] then None else Some (''_'', length run))"

definition lower :: "string \<Rightarrow> string" where
  "lower s = map lower_char s"

definition name_formatted :: "author_info \<Rightarrow> string \<Rightarrow> string" where
  \<comment> \<open>\<open>author_info.get("formatted_name", re.sub(..., "_", name).lower())\<close>\<close>
  "name_formatted author_info name =
     (case formatted_name author_info of
        Some f \<Rightarrow> f
      | None \<Rightarrow> lower (re_sub stem_match name))"

definition set_author_info :: "env \<Rightarrow> author_info \<Rightarrow> string \<Rightarrow> string io" where
  "set_author_info E author_info authors_dir fs =
     (case author_name author_info of
        None \<Rightarrow> (Inl KeyError, fs)
      | Some name \<Rightarrow>
          (case profile_picture author_info of
             None \<Rightarrow> (Inl KeyError, fs)
           | Some picture \<Rightarrow>
               (let profile_picture_loc =
                      (if is_absolute picture then picture else path_join (CWD E) picture);
                    bio_text = (case bio author_info of None \<Rightarrow> [] | Some b \<Rightarrow> b);
                    stem = name_formatted author_info name;
                    profile_picture_suffix = concat (suffixes profile_picture_loc);
                    new_profile_picture_name = stem @ profile_picture_suffix;
                    new_profile_picture_loc = path_join authors_dir new_profile_picture_name;
                    new_profile_picture_save_loc =
                      (if is_absolute new_profile_picture_loc then new_profile_picture_loc
                       else path_join (CWD E) new_profile_picture_loc);
                    info_file_name = stem @ ''.txt'';
                    info_file_loc = path_join authors_dir info_file_name;
                    info_file_save_loc =
                      (if is_absolute info_file_loc then info_file_loc
                       else path_join (CWD E) info_file_loc)
                in case shutil_copy profile_picture_loc new_profile_picture_save_loc fs of
                     (Inl e, fs1) \<Rightarrow> (Inl e, fs1)
                   | (Inr u, fs1) \<Rightarrow>
                       (let author_txt =
                              ''.. bio:: '' @ name @ [nl] @ ''   :photo: '' @ new_profile_picture_loc
                                @ [nl, nl] @ ''   '' @ bio_text @ [nl] @ ''    ''
                        in case open_write info_file_save_loc author_txt fs1 of
                             (Inl e, fs2) \<Rightarrow> (Inl e, fs2)
                           | (Inr v, fs2) \<Rightarrow>
                               (let author_sphinx =
                                      [''About the author'', ''----------------'',
                                       ''.. include:: '' @ info_file_loc];
                                    author_sphinx_txt =
                                      join [nl] (map (\<lambda>line. ''# '' @ line) author_sphinx)
                                in (Inr ([nl, nl] @ hashes @ [nl] @ author_sphinx_txt), fs2))))))"

section \<open>The script\<close>

text \<open>
  The body of the script after the arguments are parsed and the two input files are loaded:
  the stem of the notebook's file name, the flag \<open>--is-executable\<close>, the two directories, the
  notebook and the author's metadata.
\<close>

definition main ::
  "env \<Rightarrow> string \<Rightarrow> bool \<Rightarrow> string \<Rightarrow> string \<Rightarrow> notebook \<Rightarrow> author_info \<Rightarrow> unit io" where
  "main E notebook_file_name is_executable_flag sphinx_gallery_dir authors_directory nb author fs =
     (let notebook_is_executable =
            (startswith notebook_file_name ''tutorial_'' \<or> is_executable_flag);
          notebook_assets_folder_name =
            (if startswith notebook_file_name ''tutorial_''
             then drop (length ''tutorial_'') notebook_file_name
             else notebook_file_name)
      in case set_author_info E author authors_directory fs of
           (Inl e, fs1) \<Rightarrow> (Inl e, fs1)
         | (Inr author_sphinx, fs1) \<Rightarrow>
             (case convert_notebook_to_python E nb notebook_file_name notebook_is_executable
                     sphinx_gallery_dir notebook_assets_folder_name fs1 of
                (Inl e, fs2) \<Rightarrow> (Inl e, fs2)
              | (Inr nb_py, fs2) \<Rightarrow>
                  (let gallery_save_loc =
                         (if is_absolute sphinx_gallery_dir then sphinx_gallery_dir
                          else path_join (CWD E) sphinx_gallery_dir)
                   in open_write (path_join gallery_save_loc (notebook_file_name @ ''.py''))
                        (nb_py @ author_sphinx) fs2)))"

section \<open>Notions used in the properties\<close>

definition has_line :: "string \<Rightarrow> string \<Rightarrow> bool" where
  \<comment> \<open>\<open>l\<close> is one of the lines of \<open>s\<close>\<close>
  "has_line s l = (l \<in> set (split_on nl s))"

fun contains :: "string \<Rightarrow> string \<Rightarrow> bool" where
  \<comment> \<open>\<open>p in s\<close>\<close>
  "contains [] p = (p = [])"
| "contains (c # cs) p = (startswith (c # cs) p \<or> contains cs p)"

definition prop_in :: string where
  "prop_in = ''foo :property=bar''"

definition prop_out :: string where
  "prop_out = ''foo'' @ [nl] @ ''   :property=bar''"


definition lacks_representation :: "nb_output \<Rightarrow> bool" where
  \<comment> \<open>the record has no representation of the kind its type is rendered from\<close>
  "lacks_representation out =
     (if output_type out = ''execute_result'' then
        (case output_data out of None \<Rightarrow> True | Some d \<Rightarrow> text_plain d = None)
      else if output_type out = ''display_data'' then
        (case output_data out of
           None \<Rightarrow> True
         | Some d \<Rightarrow> text_plain d = None \<and> image_png d = None)
      else if output_type out = ''stream'' then
        (case output_text out of Some (l # ls) \<Rightarrow> False | _ \<Rightarrow> True)
      else False)"

definition execute_result :: "string list \<Rightarrow> nb_output" where
  \<comment> \<open>an \<open>execute_result\<close> record with the text \<open>ls\<close> as \<open>text/plain\<close>\<close>
  "execute_result ls =
     \<lparr>output_type = ''execute_result'',
      output_data = Some \<lparr>text_plain = Some ls, image_png = None\<rparr>,
      output_text = None\<rparr>"

definition display_text :: "string list \<Rightarrow> nb_output" where
  \<comment> \<open>a \<open>display_data\<close> record with the text \<open>ls\<close> as \<open>text/plain\<close> and no image\<close>
  "display_text ls =
     \<lparr>output_type = ''display_data'',
      output_data = Some \<lparr>text_plain = Some ls, image_png = None\<rparr>,
      output_text = None\<rparr>"

definition display_image :: "string \<Rightarrow> nb_output" where
  \<comment> \<open>a \<open>display_data\<close> record with only an \<open>image/png\<close> payload\<close>
  "display_image payload =
     \<lparr>output_type = ''display_data'',
      output_data = Some \<lparr>text_plain = None, image_png = Some payload\<rparr>,
      output_text = None\<rparr>"

definition stream_without_text :: nb_output where
  "stream_without_text = \<lparr>output_type = ''stream'', output_data = None, output_text = None\<rparr>"

definition code_cell :: "string \<Rightarrow> nb_output list \<Rightarrow> cell" where
  \<comment> \<open>a code cell with the id \<open>c1\<close>\<close>
  "code_cell src outs =
     \<lparr>cell_type = ''code'', cell_source = Some [src], cell_id = Some ''c1'',
      cell_outputs = Some outs\<rparr>"

definition markdown_cell :: "string \<Rightarrow> cell" where
  "markdown_cell src =
     \<lparr>cell_type = ''markdown'', cell_source = Some [src], cell_id = None, cell_outputs = None\<rparr>"

definition test_env :: env where
  \<comment> \<open>a converter and a decoder that return their input, the script in \<open>/qml/notebook_converter\<close>\<close>
  "test_env = \<lparr>convert_text = (\<lambda>s. s), b64decode = (\<lambda>s. Some s), CWD = ''/qml/notebook_converter''\<rparr>"

definition jane :: author_info where
  "jane =
     \<lparr>author_name = Some ''Jane Q. Doe'', profile_picture = Some ''jane.png'',
      bio = None, formatted_name = None\<rparr>"

definition authors_dir_default :: string where
  \<comment> \<open>the default of \<open>--authors-directory\<close>\<close>
  "authors_dir_default = ''../_static/authors''"

definition jane_fs :: "string \<Rightarrow> fs" where
  \<comment> \<open>the picture beside the script and the authors directory, nothing else\<close>
  "jane_fs picture =
     [''/qml/notebook_converter/jane.png'' \<mapsto> File picture,
      ''/qml/notebook_converter/../_static/authors'' \<mapsto> Dir]"

definition jane_txt :: string where
  \<comment> \<open>the info file of the author \<open>jane\<close>\<close>
  "jane_txt =
     ''.. bio:: Jane Q. Doe'' @ [nl] @ ''   :photo: ../_static/authors/jane_q._doe.png''
       @ [nl, nl] @ ''   '' @ [nl] @ ''    ''"

definition author_fragment :: "string \<Rightarrow> string" where
  \<comment> \<open>the author block that includes the info file \<open>stem.txt\<close> of the default directory\<close>
  "author_fragment stem =
     [nl, nl] @ hashes @ [nl] @ ''# About the author'' @ [nl] @ ''# ----------------'' @ [nl]
       @ ''# .. include:: ../_static/authors/'' @ stem @ ''.txt''"


section \<open>Properties of the text operations\<close>

lemma startswith_short: "length d < length P \<Longrightarrow> \<not> startswith d P"
proof
  assume a: "length d < length P" and "startswith d P"
  then have "take (length P) d = P" unfolding startswith_def by simp
  then have "length (take (length P) d) = length P" by simp
  with a show False by simp
qed

lemma startswith_append_short:
  assumes "length d < length P" and "t \<noteq> []" and "hd t \<notin> set P"
  shows "\<not> startswith (d @ t) P"
proof
  assume "startswith (d @ t) P"
  then have eq: "take (length P) (d @ t) = P" unfolding startswith_def .
  have "take (length P) (d @ t) ! length d = (d @ t) ! length d"
    using assms(1) by (rule nth_take)
  also have "\<dots> = hd t"
    using assms(2) by (simp add: nth_append hd_conv_nth)
  finally have "P ! length d = hd t" unfolding eq .
  moreover have "P ! length d \<in> set P" using assms(1) by (rule nth_mem)
  ultimately show False using assms(3) by simp
qed

lemma startswith_append_long: "length P \<le> length d \<Longrightarrow> startswith (d @ t) P = startswith d P"
  by (simp add: startswith_def)

lemma sub_from_drop: "sub_from m k s = sub_from m 0 (drop k s)"
  by (induction m k s rule: sub_from.induct) simp_all


subsection \<open>The attribute split\<close>

lemma property_match_words:
  assumes "\<forall>c \<in> set p. is_word c"
  shows "property_match p = None"
proof -
  from assms have d: "dropWhile is_word p = []" by simp
  show ?thesis unfolding property_match_def startswith_def Let_def d by simp
qed

lemma sub_property_words:
  "\<forall>c \<in> set p. is_word c \<Longrightarrow> sub_from property_match 0 p = p"
proof (induction p)
  case Nil
  then show ?case by simp
next
  case (Cons c cs)
  then have "property_match (c # cs) = None"
    by (intro property_match_words) simp
  with Cons show ?case by simp
qed


lemma prop_in_words:
  "takeWhile is_word prop_in = ''foo''" "dropWhile is_word prop_in = '' :property=bar''"
  by (simp_all add: prop_in_def is_word_def)

lemma prop_in_hd: "prop_in \<noteq> []" "hd prop_in \<notin> set '' :property=''"
  by (simp_all add: prop_in_def)

lemma property_match_all_words:
  assumes "\<forall>c \<in> set p. is_word c"
  shows "property_match (p @ prop_in) = Some (p @ ''foo'' @ [nl] @ ''   :property='', length p + 14)"
proof -
  have "takeWhile is_word (p @ prop_in) = p @ ''foo''"
    using assms prop_in_words(1) by (simp add: takeWhile_append2)
  moreover have "dropWhile is_word (p @ prop_in) = '' :property=bar''"
    using assms prop_in_words(2) by (simp add: dropWhile_append2)
  ultimately show ?thesis
    by (simp add: property_match_def startswith_def)
qed


lemma property_match_nonword:
  assumes "x \<in> set p" and "\<not> is_word x"
  shows "property_match (p @ prop_in) = property_match p"
proof -
  let ?d = "dropWhile is_word p"
  have tw: "takeWhile is_word (p @ prop_in) = takeWhile is_word p"
    using assms by (rule takeWhile_append1)
  have dw: "dropWhile is_word (p @ prop_in) = ?d @ prop_in"
    using assms by (rule dropWhile_append1)
  have "startswith (?d @ prop_in) '' :property='' = startswith ?d '' :property=''"
  proof (cases "length '' :property='' \<le> length ?d")
    case True
    then show ?thesis by (rule startswith_append_long)
  next
    case False
    then have lt: "length ?d < length '' :property=''" by simp
    have "\<not> startswith (?d @ prop_in) '' :property=''"
      using lt prop_in_hd by (rule startswith_append_short)
    moreover have "\<not> startswith ?d '' :property=''"
      using lt by (rule startswith_short)
    ultimately show ?thesis by simp
  qed
  then show ?thesis
    unfolding property_match_def tw dw by simp
qed

lemma property_match_length:
  assumes "property_match p = Some (rep, n)"
  shows "n \<le> length p"
proof -
  let ?d = "dropWhile is_word p"
  from assms have sw: "startswith ?d '' :property=''" and n: "n = length (takeWhile is_word p) + 11"
    by (auto simp: property_match_def Let_def split: if_splits)
  have "\<not> length ?d < length '' :property=''"
    using sw startswith_short by blast
  then have "11 \<le> length ?d" by simp
  moreover have "length (takeWhile is_word p) + length ?d = length p"
    using takeWhile_dropWhile_id [of is_word p] length_append [of "takeWhile is_word p" ?d] by simp
  ultimately show ?thesis using n by simp
qed


lemma sub_prop_in: "sub_from property_match 0 prop_in = prop_out"
  unfolding prop_in_def prop_out_def by code_simp

lemma sub_bar: "sub_from property_match 0 ''bar'' = ''bar''"
  by code_simp

lemma sub_property_tail:
  "k \<le> length p \<Longrightarrow>
   sub_from property_match k (p @ prop_in) = sub_from property_match k p @ prop_out"
proof (induction p arbitrary: k)
  case Nil
  then show ?case by (simp add: sub_prop_in)
next
  case (Cons c cs)
  show ?case
  proof (cases k)
    case (Suc k')
    with Cons.prems have "k' \<le> length cs" by simp
    then show ?thesis using Suc Cons.IH by simp
  next
    case 0
    show ?thesis
    proof (cases "\<forall>x \<in> set (c # cs). is_word x")
      case True
      have m: "property_match (c # cs @ prop_in) =
            Some ((c # cs) @ ''foo'' @ [nl] @ ''   :property='', length (c # cs) + 14)"
        using property_match_all_words [OF True] by simp
      have "sub_from property_match 0 (c # cs @ prop_in) =
            ((c # cs) @ ''foo'' @ [nl] @ ''   :property='') @
              sub_from property_match (length (c # cs) + 14 - 1) (cs @ prop_in)"
        by (simp only: sub_from.simps m option.case prod.case)
      also have "sub_from property_match (length (c # cs) + 14 - 1) (cs @ prop_in) =
            sub_from property_match 0 (drop (length (c # cs) + 14 - 1) (cs @ prop_in))"
        by (rule sub_from_drop)
      also have "drop (length (c # cs) + 14 - 1) (cs @ prop_in) = ''bar''"
        by (simp add: prop_in_def)
      also note sub_bar
      finally have "sub_from property_match 0 (c # cs @ prop_in) = (c # cs) @ prop_out"
        by (simp del: sub_from.simps add: prop_out_def)
      then show ?thesis
        using 0 sub_property_words [OF True] by (simp del: sub_from.simps)
    next
      case False
      then obtain x where x: "x \<in> set (c # cs)" "\<not> is_word x" by blast
      have pm: "property_match (c # cs @ prop_in) = property_match (c # cs)"
        using property_match_nonword [OF x] by simp
      show ?thesis
      proof (cases "property_match (c # cs)")
        case None
        then show ?thesis using 0 pm Cons.IH [of 0] by simp
      next
        case (Some a)
        obtain rep n where a: "a = (rep, n)" by (cases a)
        from Some a have "n \<le> length (c # cs)"
          using property_match_length by blast
        then have "n - 1 \<le> length cs" by simp
        then have "sub_from property_match (n - 1) (cs @ prop_in) =
                   sub_from property_match (n - 1) cs @ prop_out"
          by (rule Cons.IH)
        then show ?thesis using 0 pm Some a by simp
      qed
    qed
  qed
qed

text \<open>
  Claim C9.  A text that ends in \<open>foo :property=bar\<close> is rewritten by the attribute split
  so that it ends in the two lines \<open>foo\<close> and \<open>   :property=bar\<close>, the marker on a line
  of its own behind three spaces; the text before is rewritten as it would be alone, and the
  marker is split once.
\<close>

theorem add_property_newline_splits:
  "add_property_newline (pre @ ''foo :property=bar'') =
     add_property_newline pre @ ''foo'' @ [nl] @ ''   :property=bar''"
  using sub_property_tail [of 0 pre]
  by (simp add: add_property_newline_def re_sub_def prop_in_def prop_out_def)


end
